theory Spec2Isabelle
  imports Main "HOL-Library.Word"
begin

section \<open>Machine types of the Go source\<close>

type_synonym uint8 = "8 word"
type_synonym uint16 = "16 word"
type_synonym uint32 = "32 word"
type_synonym uint64 = "64 word"

text \<open>A Go \<^verbatim>\<open>[]byte\<close>; the nil slice and the empty slice are both \<open>[]\<close>.\<close>

type_synonym bytes = "uint8 list"

text \<open>Go's conversion \<^verbatim>\<open>[]byte(s)\<close> of a string to its bytes.\<close>

definition bytes_of :: "string \<Rightarrow> bytes" where
  "bytes_of s = map of_char s"

text \<open>A Go \<^verbatim>\<open>error\<close> value: \<open>None\<close> is nil, \<open>Some msg\<close> an error with its message.\<close>

type_synonym error = "string option"

text \<open>A reading of the wall clock (\<^verbatim>\<open>time.Time\<close>), in nanoseconds.\<close>

type_synonym Time = int

section \<open>PasswordString (sgcollect options)\<close>

text \<open>
  \<^verbatim>\<open>type PasswordString string\<close>. A Go string is a sequence of bytes and \<^verbatim>\<open>len(p)\<close>
  counts them; a HOL \<open>string\<close> is a list of 8-bit characters.
\<close>

type_synonym PasswordString = string

text \<open>
  \<^verbatim>\<open>strings.Repeat(s, count)\<close> and \<^verbatim>\<open>bytes.Repeat(b, count)\<close>: \<open>count\<close> copies of the
  argument, one after the other. Both panic on a negative count; the callers below pass
  \<^verbatim>\<open>len(p)\<close>, which is a \<open>nat\<close> here.
\<close>

definition strings_Repeat :: "string \<Rightarrow> nat \<Rightarrow> string" where
  "strings_Repeat s count = concat (replicate count s)"

definition bytes_Repeat :: "bytes \<Rightarrow> nat \<Rightarrow> bytes" where
  "bytes_Repeat b count = concat (replicate count b)"

definition GoString :: "PasswordString \<Rightarrow> string" where
  "GoString p = strings_Repeat ''*'' (length p)"

definition MarshalText :: "PasswordString \<Rightarrow> bytes \<times> error" where
  "MarshalText p = (bytes_Repeat (bytes_of ''*'') (length p), None)"

section \<open>Stream events\<close>

text \<open>
  The event structs embed \<^verbatim>\<open>streamEventCommon\<close>; a record extension is the same
  thing: the fields \<open>vbID\<close> and \<open>streamID\<close> and the method \<open>VbID\<close> are those of every
  event struct.
\<close>

record streamEventCommon =
  vbID :: uint16
  streamID :: uint16

definition VbID :: "'a streamEventCommon_scheme \<Rightarrow> uint16" where
  "VbID sec = vbID sec"

text \<open>\<^verbatim>\<open>gocbcore.SnapshotState\<close> is the transport library's 32-bit set of snapshot flags.\<close>

type_synonym SnapshotState = uint32

record snapshotEvent = streamEventCommon +
  startSeq :: uint64
  endSeq :: uint64
  snapshotType :: SnapshotState

record mutationEvent = streamEventCommon +
  mut_seq :: uint64
  mut_flags :: uint32
  mut_expiry :: uint32
  mut_cas :: uint64
  mut_datatype :: uint8
  mut_collection :: uint32
  mut_key :: bytes
  mut_value :: bytes

text \<open>A \<^verbatim>\<open>gocbcore.FailoverEntry\<close>: the stream UUID and a sequence number.\<close>

type_synonym FailoverEntry = "uint64 \<times> uint64"

record streamOpenEvent = streamEventCommon +
  failoverLogs :: "FailoverEntry list"

record deletionEvent = streamEventCommon +
  del_seq :: uint64
  del_cas :: uint64
  del_datatype :: uint8
  del_collection :: uint32
  del_key :: bytes
  del_value :: bytes

record endStreamEvent = streamEventCommon +
  err :: error

record seqnoAdvancedEvent = streamEventCommon +
  adv_seq :: uint64

text \<open>
  The interface \<^verbatim>\<open>streamEvent\<close>: a value of any struct that has the method \<open>VbID\<close>,
  that is, of any of the six structs above.
\<close>

datatype streamEvent =
    SnapshotEvent snapshotEvent
  | MutationEvent mutationEvent
  | StreamOpenEvent streamOpenEvent
  | DeletionEvent deletionEvent
  | EndStreamEvent endStreamEvent
  | SeqnoAdvancedEvent seqnoAdvancedEvent

fun event_VbID :: "streamEvent \<Rightarrow> uint16" where
  "event_VbID (SnapshotEvent e) = VbID e"
| "event_VbID (MutationEvent e) = VbID e"
| "event_VbID (StreamOpenEvent e) = VbID e"
| "event_VbID (DeletionEvent e) = VbID e"
| "event_VbID (EndStreamEvent e) = VbID e"
| "event_VbID (SeqnoAdvancedEvent e) = VbID e"

fun event_streamID :: "streamEvent \<Rightarrow> uint16" where
  "event_streamID (SnapshotEvent e) = streamID e"
| "event_streamID (MutationEvent e) = streamID e"
| "event_streamID (StreamOpenEvent e) = streamID e"
| "event_streamID (DeletionEvent e) = streamID e"
| "event_streamID (EndStreamEvent e) = streamID e"
| "event_streamID (SeqnoAdvancedEvent e) = streamID e"

section \<open>Feed events\<close>

text \<open>
  Modelled from the spec: the declaration of \<^verbatim>\<open>sgbucket.FeedOpcode\<close> is not under src/;
  the spec's feed event has an opcode that is Mutation or Deletion, and the source names
  the two constants \<^verbatim>\<open>FeedOpMutation\<close> and \<^verbatim>\<open>FeedOpDeletion\<close>.
\<close>

datatype FeedOpcode = FeedOpMutation | FeedOpDeletion

text \<open>
  \<^verbatim>\<open>sgbucket.FeedEvent\<close>, with the fields the two struct literals of the source name.
  A field that a Go struct literal leaves out has its zero value.
\<close>

record FeedEvent =
  Opcode :: FeedOpcode
  Flags :: uint32
  Expiry :: uint32
  CollectionID :: uint32
  Key :: bytes
  Value :: bytes
  DataType :: uint8
  Cas :: uint64
  VbNo :: uint16
  TimeReceived :: Time

text \<open>
  \<^verbatim>\<open>asFeedEvent\<close> of a mutation event and of a deletion event. \<^verbatim>\<open>time.Now()\<close> reads
  the clock: the reading is the argument \<open>now\<close>. The deletion's literal names neither
  \<open>Flags\<close> nor \<open>Expiry\<close>, so both are zero.
\<close>

definition mutationEvent_asFeedEvent :: "mutationEvent \<Rightarrow> Time \<Rightarrow> FeedEvent" where
  "mutationEvent_asFeedEvent e now =
     \<lparr> Opcode = FeedOpMutation,
       Flags = mut_flags e,
       Expiry = mut_expiry e,
       CollectionID = mut_collection e,
       Key = mut_key e,
       Value = mut_value e,
       DataType = mut_datatype e,
       Cas = mut_cas e,
       VbNo = vbID e,
       TimeReceived = now \<rparr>"

definition deletionEvent_asFeedEvent :: "deletionEvent \<Rightarrow> Time \<Rightarrow> FeedEvent" where
  "deletionEvent_asFeedEvent e now =
     \<lparr> Opcode = FeedOpDeletion,
       Flags = 0,
       Expiry = 0,
       CollectionID = del_collection e,
       Key = del_key e,
       Value = del_value e,
       DataType = del_datatype e,
       Cas = del_cas e,
       VbNo = vbID e,
       TimeReceived = now \<rparr>"

text \<open>
  Go's method set over the interface value: of the six stream events, the mutation and
  the deletion event have the method \<^verbatim>\<open>asFeedEvent\<close>; the others have none.
\<close>

fun asFeedEvent :: "streamEvent \<Rightarrow> Time \<Rightarrow> FeedEvent option" where
  "asFeedEvent (MutationEvent e) now = Some (mutationEvent_asFeedEvent e now)"
| "asFeedEvent (DeletionEvent e) now = Some (deletionEvent_asFeedEvent e now)"
| "asFeedEvent (SnapshotEvent e) now = None"
| "asFeedEvent (StreamOpenEvent e) now = None"
| "asFeedEvent (EndStreamEvent e) now = None"
| "asFeedEvent (SeqnoAdvancedEvent e) now = None"

section \<open>The transport's callback arguments\<close>

text \<open>
  The argument structs of \<^verbatim>\<open>gocbcore.StreamObserver\<close>, with the fields the callbacks of
  the source read.
\<close>

record DcpSnapshotMarker =
  sm_VbID :: uint16
  sm_StreamID :: uint16
  sm_StartSeqNo :: uint64
  sm_EndSeqNo :: uint64
  sm_SnapshotType :: SnapshotState

record DcpMutation =
  dm_VbID :: uint16
  dm_StreamID :: uint16
  dm_SeqNo :: uint64
  dm_Flags :: uint32
  dm_Expiry :: uint32
  dm_Cas :: uint64
  dm_Datatype :: uint8
  dm_CollectionID :: uint32
  dm_Key :: bytes
  dm_Value :: bytes

record DcpDeletion =
  dd_VbID :: uint16
  dd_StreamID :: uint16
  dd_SeqNo :: uint64
  dd_Cas :: uint64
  dd_Datatype :: uint8
  dd_CollectionID :: uint32
  dd_Key :: bytes
  dd_Value :: bytes

record DcpStreamEnd =
  se_VbID :: uint16
  se_StreamID :: uint16

record DcpExpiration =
  ex_VbID :: uint16
  ex_Key :: bytes

record DcpSeqNoAdvanced =
  sa_VbID :: uint16
  sa_StreamID :: uint16
  sa_SeqNo :: uint64

text \<open>The arguments of the seven callbacks whose bodies are empty: no field is read.\<close>

typedecl DcpCollectionCreation
typedecl DcpCollectionDeletion
typedecl DcpCollectionFlush
typedecl DcpScopeCreation
typedecl DcpScopeDeletion
typedecl DcpCollectionModification
typedecl DcpOSOSnapshot

section \<open>What a callback does: sends to workers and log lines\<close>

text \<open>
  An argument of a log call: a partition number, or user data (a key wrapped by
  \<^verbatim>\<open>UD\<close>; \<^verbatim>\<open>string(key)\<close> keeps the bytes).
\<close>

datatype log_arg = VbArg uint16 | UD bytes

text \<open>
  The state the callbacks act on, with \<open>'w\<close> the type of workers: the calls of
  \<^verbatim>\<open>Send\<close> made so far, in order, each with the worker it was made on, and the
  warnings logged so far.
\<close>

record 'w observed =
  sent :: "('w \<times> streamEvent) list"
  logged :: "(string \<times> log_arg list) list"

definition initial :: "'w observed" where
  "initial = \<lparr> sent = [], logged = [] \<rparr>"

text \<open>
  Modelled from the spec: \<^verbatim>\<open>DCPWorker.Send\<close> is not under src/. The spec's partition
  worker takes events by \<open>send(event)\<close> and receives them in submission order. The model
  records the call after the earlier ones; what the worker's queue does with it is
  outside the callbacks.
\<close>

definition Send :: "'w \<Rightarrow> streamEvent \<Rightarrow> 'w observed \<Rightarrow> 'w observed" where
  "Send w e s = s\<lparr> sent := sent s @ [(w, e)] \<rparr>"

text \<open>
  Modelled from the spec: \<^verbatim>\<open>WarnfCtx\<close> is not under src/. The spec's observer logs an
  expiration as unexpected. The model records the format string and the arguments of
  the call.
\<close>

definition WarnfCtx :: "string \<Rightarrow> log_arg list \<Rightarrow> 'w observed \<Rightarrow> 'w observed" where
  "WarnfCtx format args s = s\<lparr> logged := logged s @ [(format, args)] \<rparr>"

section \<open>The stream observer (DCPClient's callbacks)\<close>

text \<open>
  The source's key filter: it ignores its receiver and its argument.
\<close>

definition filteredKey :: "bytes \<Rightarrow> bool" where
  "filteredKey key = False"

text \<open>
  The receiver \<^verbatim>\<open>dc\<close> enters a callback through the methods the callback calls on it.
  \<^verbatim>\<open>dc.workerForVbno\<close> is not under src/: it is the argument \<open>workerForVbno\<close>.
  \<^verbatim>\<open>dc.filteredKey\<close> is the argument \<open>keyFilter\<close> of the two callbacks that call it, so
  that the guard can be studied for any predicate at that place; the callbacks of the
  source are the instances where \<open>keyFilter\<close> is \<open>filteredKey\<close>.
\<close>

definition SnapshotMarker ::
  "(uint16 \<Rightarrow> 'w) \<Rightarrow> DcpSnapshotMarker \<Rightarrow> 'w observed \<Rightarrow> 'w observed" where
  "SnapshotMarker workerForVbno snapshotMarker s =
     (let e = \<lparr> vbID = sm_VbID snapshotMarker,
                streamID = sm_StreamID snapshotMarker,
                startSeq = sm_StartSeqNo snapshotMarker,
                endSeq = sm_EndSeqNo snapshotMarker,
                snapshotType = sm_SnapshotType snapshotMarker \<rparr>
      in Send (workerForVbno (sm_VbID snapshotMarker)) (SnapshotEvent e) s)"

definition Mutation ::
  "(bytes \<Rightarrow> bool) \<Rightarrow> (uint16 \<Rightarrow> 'w) \<Rightarrow> DcpMutation \<Rightarrow> 'w observed \<Rightarrow> 'w observed" where
  "Mutation keyFilter workerForVbno mutation s =
     (if keyFilter (dm_Key mutation) then s
      else
        let e = \<lparr> vbID = dm_VbID mutation,
                  streamID = dm_StreamID mutation,
                  mut_seq = dm_SeqNo mutation,
                  mut_flags = dm_Flags mutation,
                  mut_expiry = dm_Expiry mutation,
                  mut_cas = dm_Cas mutation,
                  mut_datatype = dm_Datatype mutation,
                  mut_collection = dm_CollectionID mutation,
                  mut_key = dm_Key mutation,
                  mut_value = dm_Value mutation \<rparr>
        in Send (workerForVbno (dm_VbID mutation)) (MutationEvent e) s)"

definition Deletion ::
  "(bytes \<Rightarrow> bool) \<Rightarrow> (uint16 \<Rightarrow> 'w) \<Rightarrow> DcpDeletion \<Rightarrow> 'w observed \<Rightarrow> 'w observed" where
  "Deletion keyFilter workerForVbno deletion s =
     (if keyFilter (dd_Key deletion) then s
      else
        let e = \<lparr> vbID = dd_VbID deletion,
                  streamID = dd_StreamID deletion,
                  del_seq = dd_SeqNo deletion,
                  del_cas = dd_Cas deletion,
                  del_datatype = dd_Datatype deletion,
                  del_collection = dd_CollectionID deletion,
                  del_key = dd_Key deletion,
                  del_value = dd_Value deletion \<rparr>
        in Send (workerForVbno (dd_VbID deletion)) (DeletionEvent e) s)"

definition End ::
  "(uint16 \<Rightarrow> 'w) \<Rightarrow> DcpStreamEnd \<Rightarrow> error \<Rightarrow> 'w observed \<Rightarrow> 'w observed" where
  "End workerForVbno end' end_err s =
     (let e = \<lparr> vbID = se_VbID end',
                streamID = se_StreamID end',
                err = end_err \<rparr>
      in Send (workerForVbno (se_VbID end')) (EndStreamEvent e) s)"

definition Expiration :: "DcpExpiration \<Rightarrow> 'w observed \<Rightarrow> 'w observed" where
  "Expiration expiration s =
     WarnfCtx ''Unexpected DCP expiration event (vb:%d) for key %v''
       [VbArg (ex_VbID expiration), UD (ex_Key expiration)] s"

definition CreateCollection :: "DcpCollectionCreation \<Rightarrow> 'w observed \<Rightarrow> 'w observed" where
  "CreateCollection creation s = s"

definition DeleteCollection :: "DcpCollectionDeletion \<Rightarrow> 'w observed \<Rightarrow> 'w observed" where
  "DeleteCollection deletion s = s"

definition FlushCollection :: "DcpCollectionFlush \<Rightarrow> 'w observed \<Rightarrow> 'w observed" where
  "FlushCollection flush s = s"

definition CreateScope :: "DcpScopeCreation \<Rightarrow> 'w observed \<Rightarrow> 'w observed" where
  "CreateScope creation s = s"

definition DeleteScope :: "DcpScopeDeletion \<Rightarrow> 'w observed \<Rightarrow> 'w observed" where
  "DeleteScope deletion s = s"

definition ModifyCollection :: "DcpCollectionModification \<Rightarrow> 'w observed \<Rightarrow> 'w observed" where
  "ModifyCollection modification s = s"

definition OSOSnapshot :: "DcpOSOSnapshot \<Rightarrow> 'w observed \<Rightarrow> 'w observed" where
  "OSOSnapshot snapshot s = s"

definition SeqNoAdvanced ::
  "(uint16 \<Rightarrow> 'w) \<Rightarrow> DcpSeqNoAdvanced \<Rightarrow> 'w observed \<Rightarrow> 'w observed" where
  "SeqNoAdvanced workerForVbno seqNoAdvanced s =
     Send (workerForVbno (sa_VbID seqNoAdvanced))
       (SeqnoAdvancedEvent \<lparr> vbID = sa_VbID seqNoAdvanced,
                             streamID = sa_StreamID seqNoAdvanced,
                             adv_seq = sa_SeqNo seqNoAdvanced \<rparr>) s"

subsection \<open>The transport calling the observer\<close>

text \<open>
  One call of the transport on the observer: the method and its arguments.
\<close>

datatype callback =
    OnSnapshotMarker DcpSnapshotMarker
  | OnMutation DcpMutation
  | OnDeletion DcpDeletion
  | OnEnd DcpStreamEnd error
  | OnExpiration DcpExpiration
  | OnCreateCollection DcpCollectionCreation
  | OnDeleteCollection DcpCollectionDeletion
  | OnFlushCollection DcpCollectionFlush
  | OnCreateScope DcpScopeCreation
  | OnDeleteScope DcpScopeDeletion
  | OnModifyCollection DcpCollectionModification
  | OnOSOSnapshot DcpOSOSnapshot
  | OnSeqNoAdvanced DcpSeqNoAdvanced

fun deliver ::
  "(bytes \<Rightarrow> bool) \<Rightarrow> (uint16 \<Rightarrow> 'w) \<Rightarrow> callback \<Rightarrow> 'w observed \<Rightarrow> 'w observed" where
  "deliver keyFilter workerForVbno (OnSnapshotMarker m) s = SnapshotMarker workerForVbno m s"
| "deliver keyFilter workerForVbno (OnMutation m) s = Mutation keyFilter workerForVbno m s"
| "deliver keyFilter workerForVbno (OnDeletion d) s = Deletion keyFilter workerForVbno d s"
| "deliver keyFilter workerForVbno (OnEnd e end_err) s = End workerForVbno e end_err s"
| "deliver keyFilter workerForVbno (OnExpiration x) s = Expiration x s"
| "deliver keyFilter workerForVbno (OnCreateCollection c) s = CreateCollection c s"
| "deliver keyFilter workerForVbno (OnDeleteCollection c) s = DeleteCollection c s"
| "deliver keyFilter workerForVbno (OnFlushCollection c) s = FlushCollection c s"
| "deliver keyFilter workerForVbno (OnCreateScope c) s = CreateScope c s"
| "deliver keyFilter workerForVbno (OnDeleteScope c) s = DeleteScope c s"
| "deliver keyFilter workerForVbno (OnModifyCollection c) s = ModifyCollection c s"
| "deliver keyFilter workerForVbno (OnOSOSnapshot c) s = OSOSnapshot c s"
| "deliver keyFilter workerForVbno (OnSeqNoAdvanced a) s = SeqNoAdvanced workerForVbno a s"

text \<open>The callbacks of a whole run, one after the other, from a given state.\<close>

fun run ::
  "(bytes \<Rightarrow> bool) \<Rightarrow> (uint16 \<Rightarrow> 'w) \<Rightarrow> callback list \<Rightarrow> 'w observed \<Rightarrow> 'w observed" where
  "run keyFilter workerForVbno [] s = s"
| "run keyFilter workerForVbno (cb # cbs) s =
     run keyFilter workerForVbno cbs (deliver keyFilter workerForVbno cb s)"

subsection \<open>A filter and inputs to run the callbacks on\<close>

text \<open>
  The filter of the spec's scenario S2 (keys that start with \<^verbatim>\<open>_sync:\<close>), a worker
  table that shards the partitions over four workers, and callback arguments.
\<close>

definition syncPrefixFilter :: "bytes \<Rightarrow> bool" where
  "syncPrefixFilter key = (take 6 key = bytes_of ''_sync:'')"

definition fourWorkers :: "uint16 \<Rightarrow> nat" where
  "fourWorkers vbNo = unat vbNo mod 4"

definition sampleMutation :: "bytes \<Rightarrow> uint64 \<Rightarrow> DcpMutation" where
  "sampleMutation key seqNo =
     \<lparr> dm_VbID = 5, dm_StreamID = 2, dm_SeqNo = seqNo, dm_Flags = 0x2000006,
       dm_Expiry = 60, dm_Cas = 1700000000, dm_Datatype = 1, dm_CollectionID = 8,
       dm_Key = key, dm_Value = bytes_of ''{}'' \<rparr>"

definition sampleDeletion :: "bytes \<Rightarrow> uint64 \<Rightarrow> DcpDeletion" where
  "sampleDeletion key seqNo =
     \<lparr> dd_VbID = 6, dd_StreamID = 2, dd_SeqNo = seqNo, dd_Cas = 1700000001,
       dd_Datatype = 0, dd_CollectionID = 8, dd_Key = key, dd_Value = [] \<rparr>"

definition sampleSnapshotMarker :: DcpSnapshotMarker where
  "sampleSnapshotMarker =
     \<lparr> sm_VbID = 5, sm_StreamID = 2, sm_StartSeqNo = 0, sm_EndSeqNo = 10,
       sm_SnapshotType = 1 \<rparr>"

definition sampleStreamEnd :: DcpStreamEnd where
  "sampleStreamEnd = \<lparr> se_VbID = 7, se_StreamID = 2 \<rparr>"

definition sampleSeqNoAdvanced :: DcpSeqNoAdvanced where
  "sampleSeqNoAdvanced = \<lparr> sa_VbID = 9, sa_StreamID = 2, sa_SeqNo = 11 \<rparr>"

definition sampleRun :: "callback list" where
  "sampleRun =
     [OnSnapshotMarker sampleSnapshotMarker,
      OnMutation (sampleMutation (bytes_of ''a'') 1),
      OnMutation (sampleMutation (bytes_of ''_sync:x'') 2),
      OnDeletion (sampleDeletion (bytes_of ''_sync:y'') 3),
      OnDeletion (sampleDeletion (bytes_of ''b'') 4),
      OnSeqNoAdvanced sampleSeqNoAdvanced,
      OnEnd sampleStreamEnd None]"

subsection \<open>The invariant of the sends\<close>

text \<open>
  An event passes a key filter when it is no mutation or deletion event, or its key is
  one the filter does not match.
\<close>

definition unfiltered :: "(bytes \<Rightarrow> bool) \<Rightarrow> streamEvent \<Rightarrow> bool" where
  "unfiltered keyFilter e =
     (case e of
        MutationEvent m \<Rightarrow> \<not> keyFilter (mut_key m)
      | DeletionEvent d \<Rightarrow> \<not> keyFilter (del_key d)
      | _ \<Rightarrow> True)"

section \<open>Lemmas\<close>

lemma concat_replicate_single: "concat (replicate n [x]) = replicate n x"
  by (induction n) simp_all

lemma sent_Send: "sent (Send w e s) = sent s @ [(w, e)]"
  by (simp add: Send_def)

lemma logged_Send: "logged (Send w e s) = logged s"
  by (simp add: Send_def)

lemmas noop_defs = CreateCollection_def DeleteCollection_def FlushCollection_def
  CreateScope_def DeleteScope_def ModifyCollection_def OSOSnapshot_def

text \<open>
  A callback sends nothing, or one event: to the worker of the event's own partition,
  and only an event that passes the filter.
\<close>

lemma deliver_sent:
  "sent (deliver kf wk cb s) = sent s
   \<or> (\<exists>e. sent (deliver kf wk cb s) = sent s @ [(wk (event_VbID e), e)] \<and> unfiltered kf e)"
proof (cases cb)
  case (OnSnapshotMarker m)
  then show ?thesis
    by (simp add: SnapshotMarker_def sent_Send unfiltered_def VbID_def)
next
  case (OnMutation m)
  then show ?thesis
    by (simp add: Mutation_def sent_Send unfiltered_def VbID_def)
next
  case (OnDeletion d)
  then show ?thesis
    by (simp add: Deletion_def sent_Send unfiltered_def VbID_def)
next
  case (OnEnd e end_err)
  then show ?thesis
    by (simp add: End_def sent_Send unfiltered_def VbID_def)
next
  case (OnExpiration x)
  then show ?thesis
    by (simp add: Expiration_def WarnfCtx_def)
next
  case (OnSeqNoAdvanced a)
  then show ?thesis
    by (simp add: SeqNoAdvanced_def sent_Send unfiltered_def VbID_def)
qed (simp_all add: noop_defs)

lemma run_sent_invariant:
  assumes "\<forall>(w, e) \<in> set (sent s). w = wk (event_VbID e) \<and> unfiltered kf e"
  shows "\<forall>(w, e) \<in> set (sent (run kf wk cbs s)). w = wk (event_VbID e) \<and> unfiltered kf e"
  using assms
proof (induction cbs arbitrary: s)
  case Nil
  then show ?case by simp
next
  case (Cons cb cbs)
  have "\<forall>(w, e) \<in> set (sent (deliver kf wk cb s)). w = wk (event_VbID e) \<and> unfiltered kf e"
    using deliver_sent [of kf wk cb s] Cons.prems by auto
  then show ?case using Cons.IH by simp
qed

lemma run_initial_invariant:
  "(w, e) \<in> set (sent (run kf wk cbs initial)) \<Longrightarrow> w = wk (event_VbID e) \<and> unfiltered kf e"
proof -
  have "\<forall>(w, e) \<in> set (sent (initial :: 'a observed)). w = wk (event_VbID e) \<and> unfiltered kf e"
    by (simp add: initial_def)
  then have "\<forall>(w, e) \<in> set (sent (run kf wk cbs initial)). w = wk (event_VbID e) \<and> unfiltered kf e"
    by (rule run_sent_invariant)
  then show "(w, e) \<in> set (sent (run kf wk cbs initial)) \<Longrightarrow> w = wk (event_VbID e) \<and> unfiltered kf e"
    by auto
qed

lemma unfiltered_feed_key:
  "unfiltered kf e \<Longrightarrow> asFeedEvent e now = Some fe \<Longrightarrow> \<not> kf (Key fe)"
  by (cases e)
    (auto simp: unfiltered_def mutationEvent_asFeedEvent_def deletionEvent_asFeedEvent_def)

text \<open>The sample run, evaluated: the two keys with the prefix are not sent.\<close>

lemma sampleRun_sent:
  "sent (run syncPrefixFilter fourWorkers sampleRun initial) =
     [(1, SnapshotEvent \<lparr>vbID = 5, streamID = 2, startSeq = 0, endSeq = 10, snapshotType = 1\<rparr>),
      (1, MutationEvent \<lparr>vbID = 5, streamID = 2, mut_seq = 1, mut_flags = 0x2000006,
            mut_expiry = 60, mut_cas = 1700000000, mut_datatype = 1, mut_collection = 8,
            mut_key = [0x61], mut_value = [0x7B, 0x7D]\<rparr>),
      (2, DeletionEvent \<lparr>vbID = 6, streamID = 2, del_seq = 4, del_cas = 1700000001,
            del_datatype = 0, del_collection = 8, del_key = [0x62], del_value = []\<rparr>),
      (1, SeqnoAdvancedEvent \<lparr>vbID = 9, streamID = 2, adv_seq = 11\<rparr>),
      (3, EndStreamEvent \<lparr>vbID = 7, streamID = 2, err = None\<rparr>)]"
  by (simp add: sampleRun_def initial_def SnapshotMarker_def Mutation_def Deletion_def End_def
      SeqNoAdvanced_def Send_def syncPrefixFilter_def fourWorkers_def bytes_of_def
      sampleMutation_def sampleDeletion_def sampleSnapshotMarker_def sampleStreamEnd_def
      sampleSeqNoAdvanced_def)

section \<open>The claims\<close>

text \<open>
  C1. A mutation or deletion callback whose key the filter matches returns before
  \<open>Send\<close>: the state, and so the list of sends, is the one before the call. Hence
  in every run of callbacks from the initial state, no event sent to a worker has a feed
  event whose key the filter matches. The source's \<open>filteredKey\<close> matches no key, so
  the guard is proved for every predicate at its place, \<open>filteredKey\<close> among them.
\<close>

theorem filtered_key_never_sent:
  "(keyFilter (dm_Key m) \<longrightarrow> Mutation keyFilter workers m s = s)
   \<and> (keyFilter (dd_Key d) \<longrightarrow> Deletion keyFilter workers d s = s)
   \<and> (\<forall>(w, e) \<in> set (sent (run keyFilter workers cbs initial)).
         \<forall>fe. asFeedEvent e now = Some fe \<longrightarrow> \<not> keyFilter (Key fe))"
proof -
  have "\<forall>(w, e) \<in> set (sent (run keyFilter workers cbs initial)).
         \<forall>fe. asFeedEvent e now = Some fe \<longrightarrow> \<not> keyFilter (Key fe)"
    using run_initial_invariant [of _ _ keyFilter workers cbs] unfiltered_feed_key
    by fastforce
  then show ?thesis
    by (simp add: Mutation_def Deletion_def)
qed

text \<open>
  The filter of scenario S2 on the sample run: the mutation of \<^verbatim>\<open>_sync:x\<close> and the
  deletion of \<^verbatim>\<open>_sync:y\<close> are not sent; the feed events have the keys a and b.
\<close>

theorem filtered_key_never_sent_witness:
  "syncPrefixFilter (dm_Key (sampleMutation (bytes_of ''_sync:x'') 2))
   \<and> Mutation syncPrefixFilter fourWorkers (sampleMutation (bytes_of ''_sync:x'') 2) initial
       = initial
   \<and> syncPrefixFilter (dd_Key (sampleDeletion (bytes_of ''_sync:y'') 3))
   \<and> Deletion syncPrefixFilter fourWorkers (sampleDeletion (bytes_of ''_sync:y'') 3) initial
       = initial
   \<and> length (sent (run syncPrefixFilter fourWorkers sampleRun initial)) = 5
   \<and> list_all (\<lambda>(w, e). asFeedEvent e 0 = None \<or>
         \<not> syncPrefixFilter (Key (the (asFeedEvent e 0))))
       (sent (run syncPrefixFilter fourWorkers sampleRun initial))
   \<and> map (\<lambda>(w, e). map_option Key (asFeedEvent e 0))
       (sent (run syncPrefixFilter fourWorkers sampleRun initial))
       = [None, Some (bytes_of ''a''), Some (bytes_of ''b''), None, None]"
proof -
  note T = filtered_key_never_sent [of syncPrefixFilter
      "sampleMutation (bytes_of ''_sync:x'') 2" fourWorkers initial
      "sampleDeletion (bytes_of ''_sync:y'') 3" sampleRun 0]
  have m: "syncPrefixFilter (dm_Key (sampleMutation (bytes_of ''_sync:x'') 2))"
    by (simp add: syncPrefixFilter_def sampleMutation_def bytes_of_def)
  have d: "syncPrefixFilter (dd_Key (sampleDeletion (bytes_of ''_sync:y'') 3))"
    by (simp add: syncPrefixFilter_def sampleDeletion_def bytes_of_def)
  have all: "list_all (\<lambda>(w, e). asFeedEvent e 0 = None \<or>
         \<not> syncPrefixFilter (Key (the (asFeedEvent e 0))))
       (sent (run syncPrefixFilter fourWorkers sampleRun initial))"
    unfolding list_all_iff using T by fastforce
  have keys: "map (\<lambda>(w, e). map_option Key (asFeedEvent e 0))
       (sent (run syncPrefixFilter fourWorkers sampleRun initial))
       = [None, Some (bytes_of ''a''), Some (bytes_of ''b''), None, None]"
    by (simp add: sampleRun_sent mutationEvent_asFeedEvent_def deletionEvent_asFeedEvent_def
        bytes_of_def)
  show ?thesis
    using T m d all keys by (simp add: sampleRun_sent)
qed

text \<open>
  C2. A snapshot marker, a stream end and a seqno-advanced callback each send their
  event, whatever the key filter is: the list of sends grows by exactly that event, at
  the worker of the callback's partition.
\<close>

theorem markers_always_sent:
  "sent (deliver keyFilter workers (OnSnapshotMarker m) s) =
     sent s @ [(workers (sm_VbID m),
       SnapshotEvent \<lparr> vbID = sm_VbID m, streamID = sm_StreamID m,
         startSeq = sm_StartSeqNo m, endSeq = sm_EndSeqNo m,
         snapshotType = sm_SnapshotType m \<rparr>)]
   \<and> sent (deliver keyFilter workers (OnEnd e end_err) s) =
     sent s @ [(workers (se_VbID e),
       EndStreamEvent \<lparr> vbID = se_VbID e, streamID = se_StreamID e, err = end_err \<rparr>)]
   \<and> sent (deliver keyFilter workers (OnSeqNoAdvanced a) s) =
     sent s @ [(workers (sa_VbID a),
       SeqnoAdvancedEvent \<lparr> vbID = sa_VbID a, streamID = sa_StreamID a,
         adv_seq = sa_SeqNo a \<rparr>)]"
  by (simp add: SnapshotMarker_def End_def SeqNoAdvanced_def sent_Send)

text \<open>
  C3, as amended. The feed event of a mutation event and of a deletion event has the
  opcode, the partition (\<open>VbNo\<close>), cas, flags, expiry (both zero for a deletion),
  collection, datatype, key, value and the time of the clock reading. It has no seq:
  changing the seq of the event does not change its feed event.
\<close>

theorem asFeedEvent_fields:
  "Opcode (mutationEvent_asFeedEvent m now) = FeedOpMutation
   \<and> VbNo (mutationEvent_asFeedEvent m now) = vbID m
   \<and> Cas (mutationEvent_asFeedEvent m now) = mut_cas m
   \<and> Flags (mutationEvent_asFeedEvent m now) = mut_flags m
   \<and> Expiry (mutationEvent_asFeedEvent m now) = mut_expiry m
   \<and> CollectionID (mutationEvent_asFeedEvent m now) = mut_collection m
   \<and> DataType (mutationEvent_asFeedEvent m now) = mut_datatype m
   \<and> Key (mutationEvent_asFeedEvent m now) = mut_key m
   \<and> Value (mutationEvent_asFeedEvent m now) = mut_value m
   \<and> TimeReceived (mutationEvent_asFeedEvent m now) = now
   \<and> mutationEvent_asFeedEvent (m\<lparr> mut_seq := q \<rparr>) now = mutationEvent_asFeedEvent m now
   \<and> Opcode (deletionEvent_asFeedEvent d now) = FeedOpDeletion
   \<and> VbNo (deletionEvent_asFeedEvent d now) = vbID d
   \<and> Cas (deletionEvent_asFeedEvent d now) = del_cas d
   \<and> Flags (deletionEvent_asFeedEvent d now) = 0
   \<and> Expiry (deletionEvent_asFeedEvent d now) = 0
   \<and> CollectionID (deletionEvent_asFeedEvent d now) = del_collection d
   \<and> DataType (deletionEvent_asFeedEvent d now) = del_datatype d
   \<and> Key (deletionEvent_asFeedEvent d now) = del_key d
   \<and> Value (deletionEvent_asFeedEvent d now) = del_value d
   \<and> TimeReceived (deletionEvent_asFeedEvent d now) = now
   \<and> deletionEvent_asFeedEvent (d\<lparr> del_seq := q \<rparr>) now = deletionEvent_asFeedEvent d now"
  by (simp add: mutationEvent_asFeedEvent_def deletionEvent_asFeedEvent_def)

text \<open>
  C3 as stated fails: two mutation events (and two deletion events) that differ in
  nothing but their seq have the same feed event, so no field of the feed event is the
  seq of the event it comes from.
\<close>

theorem asFeedEvent_seq_counterexample:
  "mutationEvent_asFeedEvent
     \<lparr> vbID = 5, streamID = 0, mut_seq = 1, mut_flags = 0, mut_expiry = 0, mut_cas = 7,
       mut_datatype = 0, mut_collection = 0, mut_key = [0x61], mut_value = [] \<rparr> 0
   = mutationEvent_asFeedEvent
     \<lparr> vbID = 5, streamID = 0, mut_seq = 2, mut_flags = 0, mut_expiry = 0, mut_cas = 7,
       mut_datatype = 0, mut_collection = 0, mut_key = [0x61], mut_value = [] \<rparr> 0
   \<and> mut_seq \<lparr> vbID = 5, streamID = 0, mut_seq = 1, mut_flags = 0, mut_expiry = 0,
       mut_cas = 7, mut_datatype = 0, mut_collection = 0, mut_key = [0x61],
       mut_value = [] \<rparr>
     \<noteq> mut_seq \<lparr> vbID = 5, streamID = 0, mut_seq = 2, mut_flags = 0, mut_expiry = 0,
       mut_cas = 7, mut_datatype = 0, mut_collection = 0, mut_key = [0x61],
       mut_value = [] \<rparr>
   \<and> deletionEvent_asFeedEvent
     \<lparr> vbID = 5, streamID = 0, del_seq = 1, del_cas = 7, del_datatype = 0,
       del_collection = 0, del_key = [0x61], del_value = [] \<rparr> 0
   = deletionEvent_asFeedEvent
     \<lparr> vbID = 5, streamID = 0, del_seq = 2, del_cas = 7, del_datatype = 0,
       del_collection = 0, del_key = [0x61], del_value = [] \<rparr> 0"
  by (simp add: mutationEvent_asFeedEvent_def deletionEvent_asFeedEvent_def)

text \<open>
  C4. A mutation callback whose key is not filtered sends one mutation event, which has
  the callback's seq, cas, flags, expiry, datatype, collection, key and value; a deletion
  callback whose key is not filtered sends one deletion event, which has the callback's
  seq, cas, datatype, collection, key and value.
\<close>

theorem classification_keeps_attributes:
  "(\<not> keyFilter (dm_Key m) \<longrightarrow>
      (\<exists>e. sent (Mutation keyFilter workers m s) =
              sent s @ [(workers (dm_VbID m), MutationEvent e)]
         \<and> mut_seq e = dm_SeqNo m \<and> mut_cas e = dm_Cas m \<and> mut_flags e = dm_Flags m
         \<and> mut_expiry e = dm_Expiry m \<and> mut_datatype e = dm_Datatype m
         \<and> mut_collection e = dm_CollectionID m \<and> mut_key e = dm_Key m
         \<and> mut_value e = dm_Value m))
   \<and> (\<not> keyFilter (dd_Key d) \<longrightarrow>
      (\<exists>e. sent (Deletion keyFilter workers d s) =
              sent s @ [(workers (dd_VbID d), DeletionEvent e)]
         \<and> del_seq e = dd_SeqNo d \<and> del_cas e = dd_Cas d \<and> del_datatype e = dd_Datatype d
         \<and> del_collection e = dd_CollectionID d \<and> del_key e = dd_Key d
         \<and> del_value e = dd_Value d))"
  by (simp add: Mutation_def Deletion_def sent_Send)

text \<open>
  The sample mutation of key a and the sample deletion of key b, under the filter of
  scenario S2.
\<close>

theorem classification_keeps_attributes_witness:
  "\<not> syncPrefixFilter (dm_Key (sampleMutation (bytes_of ''a'') 1))
   \<and> (\<exists>e. sent (Mutation syncPrefixFilter fourWorkers (sampleMutation (bytes_of ''a'') 1)
               initial) = [(1, MutationEvent e)]
         \<and> mut_seq e = 1 \<and> mut_cas e = 1700000000 \<and> mut_flags e = 0x2000006
         \<and> mut_expiry e = 60 \<and> mut_datatype e = 1 \<and> mut_collection e = 8
         \<and> mut_key e = bytes_of ''a'' \<and> mut_value e = bytes_of ''{}'')
   \<and> \<not> syncPrefixFilter (dd_Key (sampleDeletion (bytes_of ''b'') 4))
   \<and> (\<exists>e. sent (Deletion syncPrefixFilter fourWorkers (sampleDeletion (bytes_of ''b'') 4)
               initial) = [(2, DeletionEvent e)]
         \<and> del_seq e = 4 \<and> del_cas e = 1700000001 \<and> del_datatype e = 0
         \<and> del_collection e = 8 \<and> del_key e = bytes_of ''b'' \<and> del_value e = [])"
proof -
  note T = classification_keeps_attributes [of syncPrefixFilter
      "sampleMutation (bytes_of ''a'') 1" fourWorkers initial
      "sampleDeletion (bytes_of ''b'') 4"]
  have m: "\<not> syncPrefixFilter (dm_Key (sampleMutation (bytes_of ''a'') 1))"
    by (simp add: syncPrefixFilter_def sampleMutation_def bytes_of_def)
  have d: "\<not> syncPrefixFilter (dd_Key (sampleDeletion (bytes_of ''b'') 4))"
    by (simp add: syncPrefixFilter_def sampleDeletion_def bytes_of_def)
  from T m have "\<exists>e. sent (Mutation syncPrefixFilter fourWorkers
           (sampleMutation (bytes_of ''a'') 1) initial) = [(1, MutationEvent e)]
         \<and> mut_seq e = 1 \<and> mut_cas e = 1700000000 \<and> mut_flags e = 0x2000006
         \<and> mut_expiry e = 60 \<and> mut_datatype e = 1 \<and> mut_collection e = 8
         \<and> mut_key e = bytes_of ''a'' \<and> mut_value e = bytes_of ''{}''"
    by (simp add: fourWorkers_def initial_def sampleMutation_def)
  moreover from T d have "\<exists>e. sent (Deletion syncPrefixFilter fourWorkers
           (sampleDeletion (bytes_of ''b'') 4) initial) = [(2, DeletionEvent e)]
         \<and> del_seq e = 4 \<and> del_cas e = 1700000001 \<and> del_datatype e = 0
         \<and> del_collection e = 8 \<and> del_key e = bytes_of ''b'' \<and> del_value e = []"
    by (simp add: fourWorkers_def initial_def sampleDeletion_def)
  ultimately show ?thesis using m d by simp
qed

text \<open>
  C5. \<open>filteredKey\<close> is false of every key, so with it every mutation callback and
  every deletion callback sends its event.
\<close>

theorem filteredKey_drops_nothing:
  "\<not> filteredKey key
   \<and> (\<exists>e. sent (Mutation filteredKey workers m s) =
             sent s @ [(workers (dm_VbID m), MutationEvent e)] \<and> mut_key e = dm_Key m)
   \<and> (\<exists>e. sent (Deletion filteredKey workers d s) =
             sent s @ [(workers (dd_VbID d), DeletionEvent e)] \<and> del_key e = dd_Key d)"
  by (simp add: filteredKey_def Mutation_def Deletion_def sent_Send)

text \<open>
  C6. In every run of callbacks from the initial state, each send is made on the worker
  that \<open>workerForVbno\<close> gives for the \<open>VbID\<close> of the event sent. Callback by
  callback: the partition given to \<open>workerForVbno\<close> is the \<open>VbID\<close> of the event
  sent, and the event's \<open>VbID\<close> and \<open>streamID\<close> are those of the callback's
  argument.
\<close>

theorem sent_to_worker_of_own_partition:
  "(\<forall>(w, e) \<in> set (sent (run keyFilter workers cbs initial)). w = workers (event_VbID e))
   \<and> (\<exists>e. SnapshotMarker workers sm s = Send (workers (event_VbID e)) e s
         \<and> event_VbID e = sm_VbID sm \<and> event_streamID e = sm_StreamID sm)
   \<and> (\<not> keyFilter (dm_Key m) \<longrightarrow>
        (\<exists>e. Mutation keyFilter workers m s = Send (workers (event_VbID e)) e s
           \<and> event_VbID e = dm_VbID m \<and> event_streamID e = dm_StreamID m))
   \<and> (\<not> keyFilter (dd_Key d) \<longrightarrow>
        (\<exists>e. Deletion keyFilter workers d s = Send (workers (event_VbID e)) e s
           \<and> event_VbID e = dd_VbID d \<and> event_streamID e = dd_StreamID d))
   \<and> (\<exists>e. End workers se end_err s = Send (workers (event_VbID e)) e s
         \<and> event_VbID e = se_VbID se \<and> event_streamID e = se_StreamID se)
   \<and> (\<exists>e. SeqNoAdvanced workers sa s = Send (workers (event_VbID e)) e s
         \<and> event_VbID e = sa_VbID sa \<and> event_streamID e = sa_StreamID sa)"
proof -
  have run: "\<forall>(w, e) \<in> set (sent (run keyFilter workers cbs initial)).
      w = workers (event_VbID e)"
    using run_initial_invariant [of _ _ keyFilter workers cbs] by fastforce
  have sm: "\<exists>e. SnapshotMarker workers sm s = Send (workers (event_VbID e)) e s
         \<and> event_VbID e = sm_VbID sm \<and> event_streamID e = sm_StreamID sm"
    by (rule exI [of _ "SnapshotEvent \<lparr> vbID = sm_VbID sm, streamID = sm_StreamID sm,
         startSeq = sm_StartSeqNo sm, endSeq = sm_EndSeqNo sm,
         snapshotType = sm_SnapshotType sm \<rparr>"])
       (simp add: SnapshotMarker_def VbID_def)
  have m: "\<not> keyFilter (dm_Key m) \<longrightarrow>
        (\<exists>e. Mutation keyFilter workers m s = Send (workers (event_VbID e)) e s
           \<and> event_VbID e = dm_VbID m \<and> event_streamID e = dm_StreamID m)"
  proof
    assume "\<not> keyFilter (dm_Key m)"
    then show "\<exists>e. Mutation keyFilter workers m s = Send (workers (event_VbID e)) e s
           \<and> event_VbID e = dm_VbID m \<and> event_streamID e = dm_StreamID m"
      by (intro exI [of _ "MutationEvent \<lparr> vbID = dm_VbID m, streamID = dm_StreamID m,
           mut_seq = dm_SeqNo m, mut_flags = dm_Flags m, mut_expiry = dm_Expiry m,
           mut_cas = dm_Cas m, mut_datatype = dm_Datatype m,
           mut_collection = dm_CollectionID m, mut_key = dm_Key m,
           mut_value = dm_Value m \<rparr>"])
         (simp add: Mutation_def VbID_def)
  qed
  have d: "\<not> keyFilter (dd_Key d) \<longrightarrow>
        (\<exists>e. Deletion keyFilter workers d s = Send (workers (event_VbID e)) e s
           \<and> event_VbID e = dd_VbID d \<and> event_streamID e = dd_StreamID d)"
  proof
    assume "\<not> keyFilter (dd_Key d)"
    then show "\<exists>e. Deletion keyFilter workers d s = Send (workers (event_VbID e)) e s
           \<and> event_VbID e = dd_VbID d \<and> event_streamID e = dd_StreamID d"
      by (intro exI [of _ "DeletionEvent \<lparr> vbID = dd_VbID d, streamID = dd_StreamID d,
           del_seq = dd_SeqNo d, del_cas = dd_Cas d, del_datatype = dd_Datatype d,
           del_collection = dd_CollectionID d, del_key = dd_Key d,
           del_value = dd_Value d \<rparr>"])
         (simp add: Deletion_def VbID_def)
  qed
  have e: "\<exists>e. End workers se end_err s = Send (workers (event_VbID e)) e s
         \<and> event_VbID e = se_VbID se \<and> event_streamID e = se_StreamID se"
    by (rule exI [of _ "EndStreamEvent \<lparr> vbID = se_VbID se, streamID = se_StreamID se,
         err = end_err \<rparr>"])
       (simp add: End_def VbID_def)
  have a: "\<exists>e. SeqNoAdvanced workers sa s = Send (workers (event_VbID e)) e s
         \<and> event_VbID e = sa_VbID sa \<and> event_streamID e = sa_StreamID sa"
    by (rule exI [of _ "SeqnoAdvancedEvent \<lparr> vbID = sa_VbID sa, streamID = sa_StreamID sa,
         adv_seq = sa_SeqNo sa \<rparr>"])
       (simp add: SeqNoAdvanced_def VbID_def)
  from run sm m d e a show ?thesis by blast
qed

text \<open>
  The sample run over four workers: five sends, each on the worker of its event's
  partition (5, 5, 6, 9 and 7, on workers 1, 1, 2, 1 and 3).
\<close>

theorem sent_to_worker_of_own_partition_witness:
  "sent (run syncPrefixFilter fourWorkers sampleRun initial) \<noteq> []
   \<and> list_all (\<lambda>(w, e). w = fourWorkers (event_VbID e))
       (sent (run syncPrefixFilter fourWorkers sampleRun initial))
   \<and> map (\<lambda>(w, e). (w, event_VbID e))
       (sent (run syncPrefixFilter fourWorkers sampleRun initial))
       = [(1, 5), (1, 5), (2, 6), (1, 9), (3, 7)]
   \<and> \<not> syncPrefixFilter (dm_Key (sampleMutation (bytes_of ''a'') 1))
   \<and> (\<exists>e. Mutation syncPrefixFilter fourWorkers (sampleMutation (bytes_of ''a'') 1) initial
            = Send (fourWorkers (event_VbID e)) e initial
         \<and> event_VbID e = 5 \<and> event_streamID e = 2)
   \<and> \<not> syncPrefixFilter (dd_Key (sampleDeletion (bytes_of ''b'') 4))
   \<and> (\<exists>e. Deletion syncPrefixFilter fourWorkers (sampleDeletion (bytes_of ''b'') 4) initial
            = Send (fourWorkers (event_VbID e)) e initial
         \<and> event_VbID e = 6 \<and> event_streamID e = 2)"
proof -
  note T = sent_to_worker_of_own_partition [of syncPrefixFilter fourWorkers sampleRun
      sampleSnapshotMarker initial "sampleMutation (bytes_of ''a'') 1"
      "sampleDeletion (bytes_of ''b'') 4" sampleStreamEnd None sampleSeqNoAdvanced]
  have m: "\<not> syncPrefixFilter (dm_Key (sampleMutation (bytes_of ''a'') 1))"
    by (simp add: syncPrefixFilter_def sampleMutation_def bytes_of_def)
  have d: "\<not> syncPrefixFilter (dd_Key (sampleDeletion (bytes_of ''b'') 4))"
    by (simp add: syncPrefixFilter_def sampleDeletion_def bytes_of_def)
  have ne: "sent (run syncPrefixFilter fourWorkers sampleRun initial) \<noteq> []"
    by (simp add: sampleRun_sent)
  have all: "list_all (\<lambda>(w, e). w = fourWorkers (event_VbID e))
       (sent (run syncPrefixFilter fourWorkers sampleRun initial))"
    unfolding list_all_iff using T by blast
  have vbs: "map (\<lambda>(w, e). (w, event_VbID e))
       (sent (run syncPrefixFilter fourWorkers sampleRun initial))
       = [(1, 5), (1, 5), (2, 6), (1, 9), (3, 7)]"
    by (simp add: sampleRun_sent VbID_def)
  from T m have em: "\<exists>e. Mutation syncPrefixFilter fourWorkers
            (sampleMutation (bytes_of ''a'') 1) initial
            = Send (fourWorkers (event_VbID e)) e initial
         \<and> event_VbID e = 5 \<and> event_streamID e = 2"
    by (simp add: sampleMutation_def)
  from T d have ed: "\<exists>e. Deletion syncPrefixFilter fourWorkers
            (sampleDeletion (bytes_of ''b'') 4) initial
            = Send (fourWorkers (event_VbID e)) e initial
         \<and> event_VbID e = 6 \<and> event_streamID e = 2"
    by (simp add: sampleDeletion_def)
  from ne all vbs m em d ed show ?thesis by blast
qed

text \<open>
  C7. An expiration callback logs one warning, the unexpected expiration with its
  partition and key, and sends nothing.
\<close>

theorem expiration_logged_not_sent:
  "sent (Expiration x s) = sent s
   \<and> logged (Expiration x s) =
       logged s @ [(''Unexpected DCP expiration event (vb:%d) for key %v'',
                    [VbArg (ex_VbID x), UD (ex_Key x)])]
   \<and> sent (deliver keyFilter workers (OnExpiration x) s) = sent s"
  by (simp add: Expiration_def WarnfCtx_def)

text \<open>
  C8. The callbacks for collection creation, deletion, flush and modification, for
  scope creation and deletion and for an OSO snapshot return the state they were given:
  nothing is sent, nothing is logged.
\<close>

theorem unused_callbacks_do_nothing:
  "CreateCollection cc s = s
   \<and> DeleteCollection dc s = s
   \<and> FlushCollection fc s = s
   \<and> CreateScope cs s = s
   \<and> DeleteScope ds s = s
   \<and> ModifyCollection mc s = s
   \<and> OSOSnapshot os s = s"
  by (simp add: noop_defs)

text \<open>
  C9. For two passwords of the same length, \<open>GoString\<close> gives the same string and
  \<open>MarshalText\<close> the same bytes: as many asterisks as the password has bytes, and
  \<open>MarshalText\<close> with a nil error.
\<close>

theorem PasswordString_masked:
  assumes "length p = length q"
  shows "GoString p = GoString q \<and> MarshalText p = MarshalText q
    \<and> GoString p = replicate (length p) CHR ''*''
    \<and> fst (MarshalText p) = replicate (length p) (0x2A :: uint8)
    \<and> fst (MarshalText p) = bytes_of (GoString p)
    \<and> snd (MarshalText p) = None"
  using assms
  by (simp add: GoString_def MarshalText_def strings_Repeat_def bytes_Repeat_def bytes_of_def
      concat_replicate_single)

text \<open>
  Two passwords of seven bytes.
\<close>

theorem PasswordString_masked_witness:
  "length ''hunter2'' = length ''letmein'' \<and> GoString ''hunter2'' = GoString ''letmein''
   \<and> MarshalText ''hunter2'' = MarshalText ''letmein''
   \<and> GoString ''hunter2'' = ''*******''
   \<and> MarshalText ''hunter2'' = ([0x2A, 0x2A, 0x2A, 0x2A, 0x2A, 0x2A, 0x2A], None)"
  using PasswordString_masked [of "''hunter2''" "''letmein''"]
  by (simp add: prod_eq_iff bytes_of_def GoString_def strings_Repeat_def MarshalText_def
      bytes_Repeat_def)

text \<open>
  C10. The feed event of a deletion event has the opcode \<open>FeedOpDeletion\<close> and zero
  flags and expiry; the feed event of a mutation event has the opcode
  \<open>FeedOpMutation\<close> and the flags and expiry of the event.
\<close>

theorem deletion_feed_event_has_no_flags:
  "Opcode (deletionEvent_asFeedEvent d now) = FeedOpDeletion
   \<and> Flags (deletionEvent_asFeedEvent d now) = 0
   \<and> Expiry (deletionEvent_asFeedEvent d now) = 0
   \<and> Opcode (mutationEvent_asFeedEvent m now) = FeedOpMutation
   \<and> Flags (mutationEvent_asFeedEvent m now) = mut_flags m
   \<and> Expiry (mutationEvent_asFeedEvent m now) = mut_expiry m"
  by (simp add: mutationEvent_asFeedEvent_def deletionEvent_asFeedEvent_def)

end
